theory Spec2Isabelle
  imports Main
begin

section \<open>Persistent-grades configuration models\<close>

text \<open>
  Shallow embedding of \<^verbatim>\<open>lms/djangoapps/grades/config/models.py\<close>: the three
  configuration models, the lookups \<^verbatim>\<open>feature_enabled\<close> makes, and the
  classmethod itself under its \<^verbatim>\<open>request_cached\<close> decorator.
\<close>

subsection \<open>Data model\<close>

text \<open>
  Every model class derives from \<^verbatim>\<open>ConfigurationModel\<close>, whose rows carry a
  \<^verbatim>\<open>change_date\<close> (a timestamp, here an integer count of clock ticks) and the
  \<^verbatim>\<open>enabled\<close> flag. The subclasses add their own columns (lines 40, 89, 105, 106).
  A course key is kept as its serialized string.
\<close>

record ConfigurationModel =
  change_date :: int
  enabled :: bool

record PersistentGradesEnabledFlag = ConfigurationModel +
  enabled_for_all_courses :: bool

record CoursePersistentGradesFlag = ConfigurationModel +
  course_id :: string

record ComputeGradesSetting = ConfigurationModel +
  batch_size :: int
  course_ids :: string

text \<open>
  What a call can see: \<^verbatim>\<open>settings.FEATURES\<close>, one table per model class
  (\<^verbatim>\<open>Model.objects\<close>, rows in insertion order), and the request cache, which
  maps the argument of an earlier call in this request to the value that call returned.
\<close>

record state =
  FEATURES :: "string \<rightharpoonup> bool"
  PersistentGradesEnabledFlag_objects :: "PersistentGradesEnabledFlag list"
  CoursePersistentGradesFlag_objects :: "CoursePersistentGradesFlag list"
  ComputeGradesSetting_objects :: "ComputeGradesSetting list"
  request_cache :: "string option \<rightharpoonup> bool"

subsection \<open>Field defaults\<close>

text \<open>
  Construction of a \<^verbatim>\<open>ComputeGradesSetting\<close> with keyword arguments: a
  \<^verbatim>\<open>batch_size\<close> given as \<open>None\<close> was left out of the call and takes the default
  declared for the field, \<^verbatim>\<open>IntegerField(default=100)\<close> (line 105). The columns of
  the base class and \<^verbatim>\<open>course_ids\<close> are passed explicitly.
\<close>

definition ComputeGradesSetting_init ::
  "int \<Rightarrow> bool \<Rightarrow> int option \<Rightarrow> string \<Rightarrow> ComputeGradesSetting" where
  "ComputeGradesSetting_init date en batch_size_arg course_ids_arg =
     \<lparr>change_date = date, enabled = en,
      batch_size = (case batch_size_arg of None \<Rightarrow> 100 | Some n \<Rightarrow> n),
      course_ids = course_ids_arg\<rparr>"

subsection \<open>Queries on the configuration store\<close>

text \<open>
  Modelled from the spec: the queryset operations of the ORM and the
  \<^verbatim>\<open>current()\<close> / \<^verbatim>\<open>is_enabled()\<close> classmethods of
  \<^verbatim>\<open>ConfigurationModel\<close> are imported, not defined in this file. The spec gives
  them as "most-recent-row-wins": the current row of a key is the one with the greatest
  \<^verbatim>\<open>change_date\<close>. \<^verbatim>\<open>filter(course_id=course_id)\<close> keeps the rows whose
  column equals the argument, \<^verbatim>\<open>order_by('-change_date')\<close> is a stable sort on the
  negated timestamp, \<^verbatim>\<open>first()\<close> answers \<open>None\<close> on an empty result.
\<close>

definition order_by_change_date_desc ::
  "('a ConfigurationModel_scheme) list \<Rightarrow> ('a ConfigurationModel_scheme) list" where
  "order_by_change_date_desc rows = sort_key (\<lambda>r. - change_date r) rows"

definition first_row :: "'r list \<Rightarrow> 'r option" where
  "first_row rows = (case rows of [] \<Rightarrow> None | r # _ \<Rightarrow> Some r)"

definition filter_course_id ::
  "string option \<Rightarrow> CoursePersistentGradesFlag list \<Rightarrow> CoursePersistentGradesFlag list" where
  "filter_course_id arg rows = filter (\<lambda>r. Some (course_id r) = arg) rows"

definition current ::
  "('a ConfigurationModel_scheme) list \<Rightarrow> ('a ConfigurationModel_scheme) option" where
  "current rows = first_row (order_by_change_date_desc rows)"

text \<open>
  Modelled from the spec: with no row stored, \<^verbatim>\<open>current()\<close> hands out a fresh
  instance holding the field defaults, so \<^verbatim>\<open>is_enabled()\<close> is \<open>False\<close>
  (\<^verbatim>\<open>toggle_default: False\<close>, line 28) and \<^verbatim>\<open>enabled_for_all_courses\<close> is
  \<open>False\<close> (line 40).
\<close>

definition is_enabled :: "('a ConfigurationModel_scheme) list \<Rightarrow> bool" where
  "is_enabled rows = (case current rows of None \<Rightarrow> False | Some r \<Rightarrow> enabled r)"

definition current_enabled_for_all_courses :: "PersistentGradesEnabledFlag list \<Rightarrow> bool" where
  "current_enabled_for_all_courses rows =
     (case current rows of None \<Rightarrow> False | Some r \<Rightarrow> enabled_for_all_courses r)"

subsection \<open>Python truth values\<close>

text \<open>
  Modelled from the spec: the course key type (\<^verbatim>\<open>CourseKey\<close>, behind
  \<^verbatim>\<open>CourseKeyField\<close>) is imported; the spec gives it as an opaque,
  string-serializable key. The argument \<^verbatim>\<open>course_id=None\<close> is \<open>None\<close> or such a
  key. In a condition \<open>None\<close> is false, and a key is false exactly when its
  serialization is empty, as Python has it for strings and sized objects.
\<close>

definition truthy :: "string option \<Rightarrow> bool" where
  "truthy arg = (case arg of None \<Rightarrow> False | Some k \<Rightarrow> k \<noteq> [])"

subsection \<open>Queries as steps on the state\<close>

text \<open>
  Modelled from the spec: lines 55 to 62 reach the settings and the tables only by
  calls into the framework. Each such call is a step: it takes the state and returns
  its answer together with the state it leaves. The spec has every one of them as a
  read ("the resolver only reads"), so each leaves the state it found;
  \<^verbatim>\<open>filter(...).order_by(...).first()\<close> is a single query, run by \<^verbatim>\<open>first()\<close>.
\<close>

definition settings_FEATURES_get :: "string \<Rightarrow> state \<Rightarrow> bool option \<times> state" where
  "settings_FEATURES_get key s = (FEATURES s key, s)"

definition PersistentGradesEnabledFlag_is_enabled :: "state \<Rightarrow> bool \<times> state" where
  "PersistentGradesEnabledFlag_is_enabled s =
     (is_enabled (PersistentGradesEnabledFlag_objects s), s)"

definition PersistentGradesEnabledFlag_current_enabled_for_all_courses ::
  "state \<Rightarrow> bool \<times> state" where
  "PersistentGradesEnabledFlag_current_enabled_for_all_courses s =
     (current_enabled_for_all_courses (PersistentGradesEnabledFlag_objects s), s)"

definition CoursePersistentGradesFlag_latest ::
  "string option \<Rightarrow> state \<Rightarrow> CoursePersistentGradesFlag option \<times> state" where
  "CoursePersistentGradesFlag_latest arg s =
     (first_row (order_by_change_date_desc
        (filter_course_id arg (CoursePersistentGradesFlag_objects s))), s)"

subsection \<open>The toggle resolver\<close>

text \<open>
  Lines 55 to 62, the function under the decorators. The state is threaded through the
  framework calls in the order the source makes them, and the function returns its value
  with the state the last call left. \<^verbatim>\<open>settings.FEATURES.get(...)\<close> is \<open>None\<close> for a
  missing key, which is false.
\<close>

definition feature_enabled_wrapped :: "state \<Rightarrow> string option \<Rightarrow> bool \<times> state" where
  "feature_enabled_wrapped s arg =
     (let (override, s1) =
            settings_FEATURES_get ''PERSISTENT_GRADES_ENABLED_FOR_ALL_TESTS'' s in
      if (case override of None \<Rightarrow> False | Some b \<Rightarrow> b) then (True, s1)
      else
        let (on, s2) = PersistentGradesEnabledFlag_is_enabled s1 in
        if \<not> on then (False, s2)
        else
          let (for_all, s3) = PersistentGradesEnabledFlag_current_enabled_for_all_courses s2 in
          if \<not> for_all \<and> truthy arg then
            let (effective, s4) = CoursePersistentGradesFlag_latest arg s3 in
            ((case effective of None \<Rightarrow> False | Some row \<Rightarrow> enabled row), s4)
          else (True, s3))"

text \<open>
  Modelled from the spec: \<^verbatim>\<open>request_cached\<close> lives in
  \<^verbatim>\<open>openedx/core/lib/cache_utils.py\<close>, which is not part of this file. The spec
  gives it as a memoization keyed by the function's argument, held for one request: a
  call whose argument is in the cache returns the stored value and touches nothing; any
  other call runs the function and stores its result under the argument, in the cache of
  the state the function left.
\<close>

definition request_cached ::
  "(state \<Rightarrow> string option \<Rightarrow> bool \<times> state) \<Rightarrow> state \<Rightarrow> string option \<Rightarrow> bool \<times> state" where
  "request_cached f s arg =
     (case request_cache s arg of
        Some v \<Rightarrow> (v, s)
      | None \<Rightarrow>
          (let (v, s1) = f s arg in (v, s1\<lparr>request_cache := (request_cache s1)(arg \<mapsto> v)\<rparr>)))"

text \<open>Lines 42 to 44: the classmethod as callers see it.\<close>

definition feature_enabled :: "state \<Rightarrow> string option \<Rightarrow> bool \<times> state" where
  "feature_enabled s arg = request_cached feature_enabled_wrapped s arg"

text \<open>
  Modelled from the spec: the cache is "scoped to one request/call context and discarded
  at its end", so a request starts on an empty cache. \<open>calls\<close> runs the calls a
  request has already made, in order, and yields the state the next call starts from.
\<close>

definition new_request :: "state \<Rightarrow> state" where
  "new_request s = s\<lparr>request_cache := Map.empty\<rparr>"

fun calls :: "state \<Rightarrow> string option list \<Rightarrow> state" where
  "calls s [] = s"
| "calls s (arg # args) = calls (snd (feature_enabled s arg)) args"


text \<open>
  The request cache agrees with the store when every value it holds is the one the
  function computes on this state.
\<close>

definition cache_coherent :: "state \<Rightarrow> bool" where
  "cache_coherent s =
     (\<forall>arg v. request_cache s arg = Some v \<longrightarrow> v = fst (feature_enabled_wrapped s arg))"

subsection \<open>Sample rows and stores\<close>

definition g_off :: PersistentGradesEnabledFlag where
  "g_off = \<lparr>change_date = 1, enabled = False, enabled_for_all_courses = True\<rparr>"

definition g_on :: PersistentGradesEnabledFlag where
  "g_on = \<lparr>change_date = 2, enabled = True, enabled_for_all_courses = False\<rparr>"

definition g_all :: PersistentGradesEnabledFlag where
  "g_all = \<lparr>change_date = 3, enabled = True, enabled_for_all_courses = True\<rparr>"

definition g_off_late :: PersistentGradesEnabledFlag where
  "g_off_late = \<lparr>change_date = 9, enabled = False, enabled_for_all_courses = True\<rparr>"

definition c1_old :: CoursePersistentGradesFlag where
  "c1_old = \<lparr>change_date = 1, enabled = False, course_id = ''course-v1:edX+DemoX+T1''\<rparr>"

definition c1_new :: CoursePersistentGradesFlag where
  "c1_new = \<lparr>change_date = 5, enabled = True, course_id = ''course-v1:edX+DemoX+T1''\<rparr>"

definition c2_off :: CoursePersistentGradesFlag where
  "c2_off = \<lparr>change_date = 3, enabled = False, course_id = ''course-v1:edX+DemoX+T2''\<rparr>"

definition c_empty :: CoursePersistentGradesFlag where
  "c_empty = \<lparr>change_date = 4, enabled = False, course_id = ''''\<rparr>"

definition store ::
  "(string \<rightharpoonup> bool) \<Rightarrow> PersistentGradesEnabledFlag list \<Rightarrow> CoursePersistentGradesFlag list
     \<Rightarrow> state" where
  "store fs gs cs =
     \<lparr>FEATURES = fs, PersistentGradesEnabledFlag_objects = gs,
      CoursePersistentGradesFlag_objects = cs, ComputeGradesSetting_objects = [],
      request_cache = Map.empty\<rparr>"

lemmas sample_defs =
  g_off_def g_on_def g_all_def g_off_late_def c1_old_def c1_new_def c2_off_def c_empty_def store_def

lemmas resolver_defs =
  feature_enabled_def request_cached_def feature_enabled_wrapped_def new_request_def
  settings_FEATURES_get_def PersistentGradesEnabledFlag_is_enabled_def
  PersistentGradesEnabledFlag_current_enabled_for_all_courses_def
  CoursePersistentGradesFlag_latest_def
  is_enabled_def current_enabled_for_all_courses_def current_def first_row_def
  order_by_change_date_desc_def filter_course_id_def truthy_def

section \<open>Properties\<close>

subsection \<open>The most recent row\<close>

lemma first_row_None: "first_row rows = None \<longleftrightarrow> rows = []"
  by (simp add: first_row_def split: list.splits)

lemma order_by_change_date_desc_set: "set (order_by_change_date_desc rows) = set rows"
  by (simp add: order_by_change_date_desc_def)

lemma order_by_change_date_desc_Nil: "order_by_change_date_desc rows = [] \<longleftrightarrow> rows = []"
  using order_by_change_date_desc_set [of rows] by (metis set_empty)

lemma first_row_latest:
  assumes "first_row (order_by_change_date_desc rows) = Some r"
  shows "r \<in> set rows \<and> (\<forall>r' \<in> set rows. change_date r' \<le> change_date r)"
proof -
  let ?f = "\<lambda>r. - change_date r"
  obtain rest where srt: "sort_key ?f rows = r # rest"
    using assms by (auto simp: first_row_def order_by_change_date_desc_def split: list.splits)
  have mem: "set (r # rest) = set rows"
    using srt set_sort [of ?f rows] by simp
  have "sorted (map ?f (r # rest))"
    using srt sorted_sort_key [of ?f rows] by simp
  then have "\<forall>x \<in> set rest. ?f r \<le> ?f x"
    by simp
  then have "\<forall>x \<in> set (r # rest). change_date x \<le> change_date r"
    by simp
  with mem show ?thesis by auto
qed

subsection \<open>The function under the decorator\<close>

text \<open>
  Lines 55 to 62 make reads only: the state comes back as it went in, and the value
  depends on the settings and the tables, not on the request cache.
\<close>

lemma feature_enabled_wrapped_state: "snd (feature_enabled_wrapped s arg) = s"
  by (simp add: feature_enabled_wrapped_def settings_FEATURES_get_def
      PersistentGradesEnabledFlag_is_enabled_def
      PersistentGradesEnabledFlag_current_enabled_for_all_courses_def
      CoursePersistentGradesFlag_latest_def)

lemma feature_enabled_wrapped_value:
  "fst (feature_enabled_wrapped s arg) =
     (if (case FEATURES s ''PERSISTENT_GRADES_ENABLED_FOR_ALL_TESTS'' of
            None \<Rightarrow> False | Some b \<Rightarrow> b) then True
      else if \<not> is_enabled (PersistentGradesEnabledFlag_objects s) then False
      else if \<not> current_enabled_for_all_courses (PersistentGradesEnabledFlag_objects s)
              \<and> truthy arg then
        (case first_row (order_by_change_date_desc
                (filter_course_id arg (CoursePersistentGradesFlag_objects s))) of
           None \<Rightarrow> False
         | Some effective \<Rightarrow> enabled effective)
      else True)"
  by (simp add: feature_enabled_wrapped_def settings_FEATURES_get_def
      PersistentGradesEnabledFlag_is_enabled_def
      PersistentGradesEnabledFlag_current_enabled_for_all_courses_def
      CoursePersistentGradesFlag_latest_def)

lemma feature_enabled_wrapped_pair:
  "feature_enabled_wrapped s arg = (fst (feature_enabled_wrapped s arg), s)"
  using feature_enabled_wrapped_state [of s arg] by (simp add: prod_eq_iff)

lemma feature_enabled_wrapped_cache:
  "fst (feature_enabled_wrapped (s\<lparr>request_cache := c\<rparr>) arg)
     = fst (feature_enabled_wrapped s arg)"
  by (simp add: feature_enabled_wrapped_value)

subsection \<open>The request cache\<close>

text \<open>
  A call writes one cache entry, under its own argument, and nothing else; entries stay
  through the later calls of the request; and a cache that agrees with the store keeps
  doing so. Hence every call of a request, whatever calls came before it, returns what
  lines 55 to 62 compute.
\<close>

lemma feature_enabled_hit:
  "request_cache s arg = Some v \<Longrightarrow> feature_enabled s arg = (v, s)"
  by (simp add: feature_enabled_def request_cached_def)

lemma feature_enabled_miss:
  assumes "request_cache s arg = None"
  shows "feature_enabled s arg =
     (fst (feature_enabled_wrapped s arg),
      s\<lparr>request_cache := (request_cache s)(arg \<mapsto> fst (feature_enabled_wrapped s arg))\<rparr>)"
proof -
  obtain v where v: "feature_enabled_wrapped s arg = (v, s)"
    using feature_enabled_wrapped_pair by blast
  show ?thesis
    using assms by (simp add: feature_enabled_def request_cached_def v)
qed

lemma feature_enabled_state:
  "snd (feature_enabled s arg)
     = s\<lparr>request_cache := (request_cache s)(arg \<mapsto> fst (feature_enabled s arg))\<rparr>"
proof (cases "request_cache s arg")
  case None
  then show ?thesis by (simp add: feature_enabled_miss)
next
  case (Some v)
  then have "(request_cache s)(arg \<mapsto> v) = request_cache s"
    by (simp add: fun_upd_idem)
  with Some show ?thesis by (simp add: feature_enabled_hit)
qed

lemma entry_after_call:
  "request_cache (snd (feature_enabled s arg)) arg = Some (fst (feature_enabled s arg))"
  using feature_enabled_state [of s arg] by simp

lemma entry_survives_call:
  assumes "request_cache s arg = Some v"
  shows "request_cache (snd (feature_enabled s a)) arg = Some v"
proof (cases "a = arg")
  case True
  then show ?thesis using assms by (simp add: feature_enabled_hit)
next
  case False
  have "request_cache (snd (feature_enabled s a)) arg
        = ((request_cache s)(a \<mapsto> fst (feature_enabled s a))) arg"
    using feature_enabled_state [of s a] by simp
  with False assms show ?thesis by simp
qed

lemma entry_survives:
  "request_cache s arg = Some v \<Longrightarrow> request_cache (calls s later) arg = Some v"
proof (induction later arbitrary: s)
  case Nil
  then show ?case by simp
next
  case (Cons a later)
  then show ?case by (simp add: entry_survives_call)
qed

lemma feature_enabled_coherent_fst:
  "cache_coherent s \<Longrightarrow> fst (feature_enabled s arg) = fst (feature_enabled_wrapped s arg)"
proof (cases "request_cache s arg")
  case None
  then show ?thesis by (simp add: feature_enabled_miss)
next
  case (Some v)
  assume "cache_coherent s"
  with Some show ?thesis by (simp add: feature_enabled_hit cache_coherent_def)
qed

lemma feature_enabled_wrapped_after_call:
  "fst (feature_enabled_wrapped (snd (feature_enabled s a)) arg)
     = fst (feature_enabled_wrapped s arg)"
  using feature_enabled_state [of s a] feature_enabled_wrapped_cache by metis

lemma feature_enabled_coherent_snd:
  assumes "cache_coherent s"
  shows "cache_coherent (snd (feature_enabled s a))"
proof -
  let ?v = "fst (feature_enabled s a)"
  have c: "request_cache (snd (feature_enabled s a)) = (request_cache s)(a \<mapsto> ?v)"
    using feature_enabled_state [of s a] by simp
  have "?v = fst (feature_enabled_wrapped s a)"
    using assms by (rule feature_enabled_coherent_fst)
  with assms show ?thesis
    unfolding cache_coherent_def c feature_enabled_wrapped_after_call
    by (simp split: if_splits)
qed

lemma calls_coherent:
  "cache_coherent s \<Longrightarrow> cache_coherent (calls s prior) \<and>
     fst (feature_enabled_wrapped (calls s prior) arg) = fst (feature_enabled_wrapped s arg)"
proof (induction prior arbitrary: s)
  case Nil
  then show ?case by simp
next
  case (Cons a prior)
  then show ?case
    by (simp add: feature_enabled_coherent_snd feature_enabled_wrapped_after_call)
qed

lemma new_request_coherent: "cache_coherent (new_request s)"
  by (simp add: cache_coherent_def new_request_def)

lemma in_request:
  "fst (feature_enabled (calls (new_request s) prior) arg) = fst (feature_enabled_wrapped s arg)"
proof -
  have "fst (feature_enabled (calls (new_request s) prior) arg)
        = fst (feature_enabled_wrapped (new_request s) arg)"
    using calls_coherent [OF new_request_coherent, of s prior arg]
    by (simp add: feature_enabled_coherent_fst)
  then show ?thesis
    by (simp add: new_request_def feature_enabled_wrapped_cache)
qed

lemma wrapped_course_lookup:
  assumes "FEATURES s ''PERSISTENT_GRADES_ENABLED_FOR_ALL_TESTS'' \<noteq> Some True"
    and "is_enabled (PersistentGradesEnabledFlag_objects s)"
    and "\<not> current_enabled_for_all_courses (PersistentGradesEnabledFlag_objects s)"
    and "truthy arg"
  shows "fst (feature_enabled_wrapped s arg) =
     (case first_row (order_by_change_date_desc
             (filter_course_id arg (CoursePersistentGradesFlag_objects s))) of
        None \<Rightarrow> False | Some effective \<Rightarrow> enabled effective)"
  using assms by (auto simp: feature_enabled_wrapped_value split: option.splits)

subsection \<open>Claims about the resolver\<close>

text \<open>
  In the statements below a call is made in a request on the store \<open>s\<close>, after any
  list \<open>prior\<close> of earlier calls of the same request: its state is
  \<open>calls (new_request s) prior\<close>, and \<open>fst\<close> of the call is the value returned.
\<close>

text \<open>
  Claim C1, as amended. Let the test override be unset, the global toggle's current row
  have \<open>enabled = True\<close> and \<open>enabled_for_all_courses = False\<close>, and \<open>k\<close> be a
  non-empty course key with at least one row. Then \<^verbatim>\<open>feature_enabled(k)\<close> returns
  the \<open>enabled\<close> value of a row of \<open>k\<close> whose \<open>change_date\<close> is greatest among the
  rows of \<open>k\<close>; and whenever one row of \<open>k\<close> is strictly later than all the others,
  its value is returned, so an older disabled row never overrides a later enabled one.
\<close>

theorem feature_enabled_latest_course_row:
  assumes "FEATURES s ''PERSISTENT_GRADES_ENABLED_FOR_ALL_TESTS'' \<noteq> Some True"
    and "is_enabled (PersistentGradesEnabledFlag_objects s)"
    and "\<not> current_enabled_for_all_courses (PersistentGradesEnabledFlag_objects s)"
    and "truthy (Some k)"
    and "filter_course_id (Some k) (CoursePersistentGradesFlag_objects s) \<noteq> []"
  shows "(\<exists>r \<in> set (CoursePersistentGradesFlag_objects s).
            course_id r = k
          \<and> (\<forall>r' \<in> set (CoursePersistentGradesFlag_objects s).
                course_id r' = k \<longrightarrow> change_date r' \<le> change_date r)
          \<and> fst (feature_enabled (calls (new_request s) prior) (Some k)) = enabled r)
       \<and> (\<forall>r \<in> set (CoursePersistentGradesFlag_objects s).
            course_id r = k
          \<and> (\<forall>r' \<in> set (CoursePersistentGradesFlag_objects s).
                course_id r' = k \<and> r' \<noteq> r \<longrightarrow> change_date r' < change_date r)
          \<longrightarrow> fst (feature_enabled (calls (new_request s) prior) (Some k)) = enabled r)"
proof -
  let ?C = "CoursePersistentGradesFlag_objects s"
  let ?res = "fst (feature_enabled (calls (new_request s) prior) (Some k))"
  let ?rows = "filter_course_id (Some k) ?C"
  have "first_row (order_by_change_date_desc ?rows) \<noteq> None"
    using assms(5) by (simp add: first_row_None order_by_change_date_desc_Nil)
  then obtain e where e: "first_row (order_by_change_date_desc ?rows) = Some e"
    by blast
  have res: "?res = enabled e"
    using wrapped_course_lookup [OF assms(1-4)] e by (simp add: in_request)
  have late: "e \<in> set ?rows \<and> (\<forall>r' \<in> set ?rows. change_date r' \<le> change_date e)"
    using first_row_latest [OF e] .
  have mem: "set ?rows = {r \<in> set ?C. course_id r = k}"
    by (auto simp: filter_course_id_def)
  have e_in: "e \<in> set ?C" and e_key: "course_id e = k"
    using late mem by auto
  have e_max: "\<forall>r' \<in> set ?C. course_id r' = k \<longrightarrow> change_date r' \<le> change_date e"
    using late mem by auto
  have first: "\<exists>r \<in> set ?C. course_id r = k
      \<and> (\<forall>r' \<in> set ?C. course_id r' = k \<longrightarrow> change_date r' \<le> change_date r)
      \<and> ?res = enabled r"
    using e_in e_key e_max res by blast
  have second: "\<forall>r \<in> set ?C. course_id r = k
      \<and> (\<forall>r' \<in> set ?C. course_id r' = k \<and> r' \<noteq> r \<longrightarrow> change_date r' < change_date r)
      \<longrightarrow> ?res = enabled r"
  proof (intro ballI impI)
    fix r
    assume r_in: "r \<in> set ?C"
      and r: "course_id r = k
        \<and> (\<forall>r' \<in> set ?C. course_id r' = k \<and> r' \<noteq> r \<longrightarrow> change_date r' < change_date r)"
    have "e = r"
    proof (rule ccontr)
      assume "e \<noteq> r"
      then have "change_date e < change_date r"
        using r e_in e_key by blast
      moreover have "change_date r \<le> change_date e"
        using e_max r_in r by blast
      ultimately show False by simp
    qed
    then show "?res = enabled r" using res by simp
  qed
  from first second show ?thesis by blast
qed

theorem feature_enabled_latest_course_row_witness:
  "FEATURES (store Map.empty [g_off, g_on] [c1_old, c1_new, c2_off])
      ''PERSISTENT_GRADES_ENABLED_FOR_ALL_TESTS'' \<noteq> Some True
   \<and> is_enabled (PersistentGradesEnabledFlag_objects
        (store Map.empty [g_off, g_on] [c1_old, c1_new, c2_off]))
   \<and> \<not> current_enabled_for_all_courses (PersistentGradesEnabledFlag_objects
        (store Map.empty [g_off, g_on] [c1_old, c1_new, c2_off]))
   \<and> truthy (Some ''course-v1:edX+DemoX+T1'')
   \<and> filter_course_id (Some ''course-v1:edX+DemoX+T1'') (CoursePersistentGradesFlag_objects
        (store Map.empty [g_off, g_on] [c1_old, c1_new, c2_off])) \<noteq> []
   \<and> fst (feature_enabled
        (calls (new_request (store Map.empty [g_off, g_on] [c1_old, c1_new, c2_off]))
           [None, Some ''course-v1:edX+DemoX+T2''])
        (Some ''course-v1:edX+DemoX+T1'')) = enabled c1_new"
proof -
  let ?s = "store Map.empty [g_off, g_on] [c1_old, c1_new, c2_off]"
  let ?k = "''course-v1:edX+DemoX+T1''"
  have h1: "FEATURES ?s ''PERSISTENT_GRADES_ENABLED_FOR_ALL_TESTS'' \<noteq> Some True"
    by (simp add: store_def)
  have h2: "is_enabled (PersistentGradesEnabledFlag_objects ?s)"
    by (simp add: sample_defs resolver_defs)
  have h3: "\<not> current_enabled_for_all_courses (PersistentGradesEnabledFlag_objects ?s)"
    by (simp add: sample_defs resolver_defs)
  have h4: "truthy (Some ?k)"
    by (simp add: truthy_def)
  have h5: "filter_course_id (Some ?k) (CoursePersistentGradesFlag_objects ?s) \<noteq> []"
    by (simp add: sample_defs filter_course_id_def)
  have rows: "CoursePersistentGradesFlag_objects ?s = [c1_old, c1_new, c2_off]"
    by (simp add: store_def)
  have "fst (feature_enabled (calls (new_request ?s) [None, Some ''course-v1:edX+DemoX+T2''])
          (Some ?k)) = enabled c1_new"
    using feature_enabled_latest_course_row
      [OF h1 h2 h3 h4 h5, of "[None, Some ''course-v1:edX+DemoX+T2'']"]
    unfolding rows by (simp add: sample_defs)
  with h1 h2 h3 h4 h5 show ?thesis by blast
qed

text \<open>
  Claim C1 as stated fails on two inputs. With the test override set, the call returns
  \<open>True\<close> although the only row of the course is disabled (lines 55 and 56 come
  first). With the override unset and an empty course key, the call returns \<open>True\<close>
  although the only row stored under that key is disabled (the condition of line 59
  tests the key's truth value).
\<close>

theorem feature_enabled_latest_course_row_counterexample:
  "is_enabled (PersistentGradesEnabledFlag_objects
      (store [''PERSISTENT_GRADES_ENABLED_FOR_ALL_TESTS'' \<mapsto> True] [g_on] [c2_off]))
   \<and> \<not> current_enabled_for_all_courses (PersistentGradesEnabledFlag_objects
      (store [''PERSISTENT_GRADES_ENABLED_FOR_ALL_TESTS'' \<mapsto> True] [g_on] [c2_off]))
   \<and> filter_course_id (Some ''course-v1:edX+DemoX+T2'') (CoursePersistentGradesFlag_objects
      (store [''PERSISTENT_GRADES_ENABLED_FOR_ALL_TESTS'' \<mapsto> True] [g_on] [c2_off])) = [c2_off]
   \<and> enabled c2_off = False
   \<and> fst (feature_enabled
        (store [''PERSISTENT_GRADES_ENABLED_FOR_ALL_TESTS'' \<mapsto> True] [g_on] [c2_off])
        (Some ''course-v1:edX+DemoX+T2'')) = True
   \<and> is_enabled (PersistentGradesEnabledFlag_objects (store Map.empty [g_on] [c_empty]))
   \<and> \<not> current_enabled_for_all_courses
        (PersistentGradesEnabledFlag_objects (store Map.empty [g_on] [c_empty]))
   \<and> filter_course_id (Some '''')
        (CoursePersistentGradesFlag_objects (store Map.empty [g_on] [c_empty])) = [c_empty]
   \<and> enabled c_empty = False
   \<and> fst (feature_enabled (store Map.empty [g_on] [c_empty]) (Some '''')) = True"
  by (simp add: sample_defs resolver_defs)

text \<open>
  Claim C2. If the test override is absent from \<^verbatim>\<open>settings.FEATURES\<close> and the
  global toggle is not enabled (\<^verbatim>\<open>is_enabled()\<close> is false: the current row has
  \<open>enabled = False\<close>, or no row is stored), then \<^verbatim>\<open>feature_enabled\<close> returns
  \<open>False\<close> for every argument, \<open>None\<close> included, whatever the per-course rows and
  whatever \<open>enabled_for_all_courses\<close> say.
\<close>

theorem feature_enabled_global_disabled:
  assumes "FEATURES s ''PERSISTENT_GRADES_ENABLED_FOR_ALL_TESTS'' = None"
    and "\<not> is_enabled (PersistentGradesEnabledFlag_objects s)"
  shows "fst (feature_enabled (calls (new_request s) prior) arg) = False"
  using assms by (simp add: in_request feature_enabled_wrapped_value)

theorem feature_enabled_global_disabled_witness:
  "FEATURES (store Map.empty [g_on, g_off_late] [c1_new])
      ''PERSISTENT_GRADES_ENABLED_FOR_ALL_TESTS'' = None
   \<and> \<not> is_enabled (PersistentGradesEnabledFlag_objects
        (store Map.empty [g_on, g_off_late] [c1_new]))
   \<and> fst (feature_enabled
        (calls (new_request (store Map.empty [g_on, g_off_late] [c1_new])) [None])
        (Some ''course-v1:edX+DemoX+T1'')) = False"
proof -
  let ?s = "store Map.empty [g_on, g_off_late] [c1_new]"
  have h1: "FEATURES ?s ''PERSISTENT_GRADES_ENABLED_FOR_ALL_TESTS'' = None"
    by (simp add: store_def)
  have h2: "\<not> is_enabled (PersistentGradesEnabledFlag_objects ?s)"
    by (simp add: sample_defs resolver_defs)
  show ?thesis
    using feature_enabled_global_disabled
      [OF h1 h2, of "[None]" "Some ''course-v1:edX+DemoX+T1''"] h1 h2
    by simp
qed

text \<open>
  Claim C3. If the test override
  \<^verbatim>\<open>PERSISTENT_GRADES_ENABLED_FOR_ALL_TESTS\<close> is set in \<^verbatim>\<open>settings.FEATURES\<close>,
  then \<^verbatim>\<open>feature_enabled\<close> returns \<open>True\<close> for every argument and every content of
  the global and per-course tables: neither the global toggle, nor
  \<open>enabled_for_all_courses\<close>, nor the per-course rows are consulted.
\<close>

theorem feature_enabled_test_override:
  assumes "FEATURES s ''PERSISTENT_GRADES_ENABLED_FOR_ALL_TESTS'' = Some True"
  shows "fst (feature_enabled (calls (new_request s) prior) arg) = True"
  using assms by (simp add: in_request feature_enabled_wrapped_value)

theorem feature_enabled_test_override_witness:
  "FEATURES (store [''PERSISTENT_GRADES_ENABLED_FOR_ALL_TESTS'' \<mapsto> True] [g_off] [c2_off])
      ''PERSISTENT_GRADES_ENABLED_FOR_ALL_TESTS'' = Some True
   \<and> fst (feature_enabled
        (calls (new_request
           (store [''PERSISTENT_GRADES_ENABLED_FOR_ALL_TESTS'' \<mapsto> True] [g_off] [c2_off]))
           [None])
        (Some ''course-v1:edX+DemoX+T2'')) = True"
proof -
  let ?s = "store [''PERSISTENT_GRADES_ENABLED_FOR_ALL_TESTS'' \<mapsto> True] [g_off] [c2_off]"
  have h1: "FEATURES ?s ''PERSISTENT_GRADES_ENABLED_FOR_ALL_TESTS'' = Some True"
    by (simp add: store_def)
  show ?thesis
    using feature_enabled_test_override [OF h1, of "[None]" "Some ''course-v1:edX+DemoX+T2''"] h1
    by simp
qed

text \<open>
  Claim C4. If the global toggle's current row has \<open>enabled = True\<close> and
  \<open>enabled_for_all_courses = True\<close>, then \<^verbatim>\<open>feature_enabled\<close> returns \<open>True\<close>
  for every argument, \<open>None\<close> included, whatever the per-course table holds.
\<close>

theorem feature_enabled_for_all_courses:
  assumes "is_enabled (PersistentGradesEnabledFlag_objects s)"
    and "current_enabled_for_all_courses (PersistentGradesEnabledFlag_objects s)"
  shows "fst (feature_enabled (calls (new_request s) prior) arg) = True"
  using assms by (simp add: in_request feature_enabled_wrapped_value)

theorem feature_enabled_for_all_courses_witness:
  "is_enabled (PersistentGradesEnabledFlag_objects (store Map.empty [g_all, g_on] [c2_off]))
   \<and> current_enabled_for_all_courses
        (PersistentGradesEnabledFlag_objects (store Map.empty [g_all, g_on] [c2_off]))
   \<and> fst (feature_enabled
        (calls (new_request (store Map.empty [g_all, g_on] [c2_off])) [])
        (Some ''course-v1:edX+DemoX+T2'')) = True"
proof -
  let ?s = "store Map.empty [g_all, g_on] [c2_off]"
  have h1: "is_enabled (PersistentGradesEnabledFlag_objects ?s)"
    by (simp add: sample_defs resolver_defs)
  have h2: "current_enabled_for_all_courses (PersistentGradesEnabledFlag_objects ?s)"
    by (simp add: sample_defs resolver_defs)
  show ?thesis
    using feature_enabled_for_all_courses
      [OF h1 h2, of "[]" "Some ''course-v1:edX+DemoX+T2''"] h1 h2
    by simp
qed

text \<open>
  Claim C5. If the global toggle's current row has \<open>enabled = True\<close> and
  \<open>enabled_for_all_courses = False\<close>, and no course id is supplied, then
  \<^verbatim>\<open>feature_enabled()\<close> returns \<open>True\<close>.
\<close>

theorem feature_enabled_no_course_id:
  assumes "is_enabled (PersistentGradesEnabledFlag_objects s)"
    and "\<not> current_enabled_for_all_courses (PersistentGradesEnabledFlag_objects s)"
  shows "fst (feature_enabled (calls (new_request s) prior) None) = True"
  using assms by (simp add: in_request feature_enabled_wrapped_value truthy_def)

theorem feature_enabled_no_course_id_witness:
  "is_enabled (PersistentGradesEnabledFlag_objects (store Map.empty [g_off, g_on] [c2_off]))
   \<and> \<not> current_enabled_for_all_courses
        (PersistentGradesEnabledFlag_objects (store Map.empty [g_off, g_on] [c2_off]))
   \<and> fst (feature_enabled
        (calls (new_request (store Map.empty [g_off, g_on] [c2_off]))
           [Some ''course-v1:edX+DemoX+T2''])
        None) = True"
proof -
  let ?s = "store Map.empty [g_off, g_on] [c2_off]"
  have h1: "is_enabled (PersistentGradesEnabledFlag_objects ?s)"
    by (simp add: sample_defs resolver_defs)
  have h2: "\<not> current_enabled_for_all_courses (PersistentGradesEnabledFlag_objects ?s)"
    by (simp add: sample_defs resolver_defs)
  show ?thesis
    using feature_enabled_no_course_id
      [OF h1 h2, of "[Some ''course-v1:edX+DemoX+T2'']"] h1 h2
    by simp
qed

text \<open>
  Claim C6, as amended. If the test override is unset, the global toggle's current row
  has \<open>enabled = True\<close> and \<open>enabled_for_all_courses = False\<close>, a non-empty course
  key is supplied and no row is stored for it, then \<^verbatim>\<open>feature_enabled\<close> returns
  \<open>False\<close>: the missing row is an ordinary negative answer, not an error.
\<close>

theorem feature_enabled_no_course_row:
  assumes "FEATURES s ''PERSISTENT_GRADES_ENABLED_FOR_ALL_TESTS'' \<noteq> Some True"
    and "is_enabled (PersistentGradesEnabledFlag_objects s)"
    and "\<not> current_enabled_for_all_courses (PersistentGradesEnabledFlag_objects s)"
    and "truthy (Some k)"
    and "filter_course_id (Some k) (CoursePersistentGradesFlag_objects s) = []"
  shows "fst (feature_enabled (calls (new_request s) prior) (Some k)) = False"
  using wrapped_course_lookup [OF assms(1-4)] assms(5)
  by (simp add: in_request order_by_change_date_desc_def first_row_def)

theorem feature_enabled_no_course_row_witness:
  "FEATURES (store Map.empty [g_on] [c1_new, c2_off])
      ''PERSISTENT_GRADES_ENABLED_FOR_ALL_TESTS'' \<noteq> Some True
   \<and> is_enabled (PersistentGradesEnabledFlag_objects (store Map.empty [g_on] [c1_new, c2_off]))
   \<and> \<not> current_enabled_for_all_courses
        (PersistentGradesEnabledFlag_objects (store Map.empty [g_on] [c1_new, c2_off]))
   \<and> truthy (Some ''course-v1:edX+DemoX+T3'')
   \<and> filter_course_id (Some ''course-v1:edX+DemoX+T3'')
        (CoursePersistentGradesFlag_objects (store Map.empty [g_on] [c1_new, c2_off])) = []
   \<and> fst (feature_enabled
        (calls (new_request (store Map.empty [g_on] [c1_new, c2_off]))
           [Some ''course-v1:edX+DemoX+T1''])
        (Some ''course-v1:edX+DemoX+T3'')) = False"
proof -
  let ?s = "store Map.empty [g_on] [c1_new, c2_off]"
  let ?k = "''course-v1:edX+DemoX+T3''"
  have h1: "FEATURES ?s ''PERSISTENT_GRADES_ENABLED_FOR_ALL_TESTS'' \<noteq> Some True"
    by (simp add: store_def)
  have h2: "is_enabled (PersistentGradesEnabledFlag_objects ?s)"
    by (simp add: sample_defs resolver_defs)
  have h3: "\<not> current_enabled_for_all_courses (PersistentGradesEnabledFlag_objects ?s)"
    by (simp add: sample_defs resolver_defs)
  have h4: "truthy (Some ?k)"
    by (simp add: truthy_def)
  have h5: "filter_course_id (Some ?k) (CoursePersistentGradesFlag_objects ?s) = []"
    by (simp add: sample_defs filter_course_id_def)
  show ?thesis
    using feature_enabled_no_course_row
      [OF h1 h2 h3 h4 h5, of "[Some ''course-v1:edX+DemoX+T1'']"] h1 h2 h3 h4 h5
    by simp
qed

text \<open>
  Claim C6 as stated fails on two inputs, each with the global toggle enabled, not for
  all courses, and no row for the course: with the test override set the call returns
  \<open>True\<close>, and with the override unset and an empty course key it returns \<open>True\<close>
  as well.
\<close>

theorem feature_enabled_no_course_row_counterexample:
  "is_enabled (PersistentGradesEnabledFlag_objects
      (store [''PERSISTENT_GRADES_ENABLED_FOR_ALL_TESTS'' \<mapsto> True] [g_on] [c1_new]))
   \<and> \<not> current_enabled_for_all_courses (PersistentGradesEnabledFlag_objects
      (store [''PERSISTENT_GRADES_ENABLED_FOR_ALL_TESTS'' \<mapsto> True] [g_on] [c1_new]))
   \<and> filter_course_id (Some ''course-v1:edX+DemoX+T3'') (CoursePersistentGradesFlag_objects
      (store [''PERSISTENT_GRADES_ENABLED_FOR_ALL_TESTS'' \<mapsto> True] [g_on] [c1_new])) = []
   \<and> fst (feature_enabled
        (store [''PERSISTENT_GRADES_ENABLED_FOR_ALL_TESTS'' \<mapsto> True] [g_on] [c1_new])
        (Some ''course-v1:edX+DemoX+T3'')) = True
   \<and> is_enabled (PersistentGradesEnabledFlag_objects (store Map.empty [g_on] [c1_new]))
   \<and> \<not> current_enabled_for_all_courses
        (PersistentGradesEnabledFlag_objects (store Map.empty [g_on] [c1_new]))
   \<and> filter_course_id (Some '''')
        (CoursePersistentGradesFlag_objects (store Map.empty [g_on] [c1_new])) = []
   \<and> fst (feature_enabled (store Map.empty [g_on] [c1_new]) (Some '''')) = True"
  by (simp add: sample_defs resolver_defs)

text \<open>
  Claim C7. \<^verbatim>\<open>feature_enabled\<close> performs no mutation of the configuration store.
  The function of lines 55 to 62 hands back the state exactly as it received it; and
  for every argument and every state, the settings and the rows of the three tables are
  the same after the decorated call as before, the state after the call being the
  state before with the request cache extended at the argument and nothing else.
\<close>

theorem feature_enabled_store_unchanged:
  "snd (feature_enabled_wrapped s arg) = s
   \<and> FEATURES (snd (feature_enabled s arg)) = FEATURES s
   \<and> PersistentGradesEnabledFlag_objects (snd (feature_enabled s arg))
       = PersistentGradesEnabledFlag_objects s
   \<and> CoursePersistentGradesFlag_objects (snd (feature_enabled s arg))
       = CoursePersistentGradesFlag_objects s
   \<and> ComputeGradesSetting_objects (snd (feature_enabled s arg))
       = ComputeGradesSetting_objects s
   \<and> snd (feature_enabled s arg)
       = s\<lparr>request_cache := (request_cache s)(arg \<mapsto> fst (feature_enabled s arg))\<rparr>"
proof -
  have body: "snd (feature_enabled_wrapped s arg) = s"
    by (simp add: feature_enabled_wrapped_def settings_FEATURES_get_def
        PersistentGradesEnabledFlag_is_enabled_def
        PersistentGradesEnabledFlag_current_enabled_for_all_courses_def
        CoursePersistentGradesFlag_latest_def)
  have call: "snd (feature_enabled s arg)
      = s\<lparr>request_cache := (request_cache s)(arg \<mapsto> fst (feature_enabled s arg))\<rparr>"
    by (rule feature_enabled_state)
  have "FEATURES (snd (feature_enabled s arg)) = FEATURES s"
    and "PersistentGradesEnabledFlag_objects (snd (feature_enabled s arg))
       = PersistentGradesEnabledFlag_objects s"
    and "CoursePersistentGradesFlag_objects (snd (feature_enabled s arg))
       = CoursePersistentGradesFlag_objects s"
    and "ComputeGradesSetting_objects (snd (feature_enabled s arg))
       = ComputeGradesSetting_objects s"
    by (subst call, simp)+
  with body call show ?thesis by blast
qed

text \<open>
  Claim C8. Within one request the result is memoized under the argument.
  \<^item> A call stores its value under its own argument and changes no other entry.
  \<^item> After a call with argument \<open>arg\<close> and any further calls \<open>later\<close> of the same
    request, a call with \<open>arg\<close> returns the first call's value and leaves the state as
    it is.
  \<^item> The repeated call does not read the store: on any state \<open>s'\<close> whose cache holds
    at \<open>arg\<close> what the request's cache holds there, whatever its settings and tables,
    it returns the first call's value and leaves \<open>s'\<close> as it is.
  \<^item> Nothing carries over from one request to the next: whatever cache \<open>c\<close> the
    state holds when a request begins, every call of the request returns what lines 55
    to 62 compute on the settings and tables.
\<close>

theorem feature_enabled_memoized:
  "request_cache (snd (feature_enabled s arg))
     = (request_cache s)(arg \<mapsto> fst (feature_enabled s arg))
   \<and> feature_enabled (calls (snd (feature_enabled s arg)) later) arg
       = (fst (feature_enabled s arg), calls (snd (feature_enabled s arg)) later)
   \<and> (request_cache s' arg = request_cache (calls (snd (feature_enabled s arg)) later) arg
        \<longrightarrow> feature_enabled s' arg = (fst (feature_enabled s arg), s'))
   \<and> fst (feature_enabled (calls (new_request (s\<lparr>request_cache := c\<rparr>)) prior) arg)
       = fst (feature_enabled_wrapped s arg)"
proof -
  let ?v = "fst (feature_enabled s arg)"
  let ?t = "calls (snd (feature_enabled s arg)) later"
  have written: "request_cache (snd (feature_enabled s arg)) = (request_cache s)(arg \<mapsto> ?v)"
    using feature_enabled_state [of s arg] by simp
  have kept: "request_cache ?t arg = Some ?v"
    by (rule entry_survives) (rule entry_after_call)
  have again: "feature_enabled ?t arg = (?v, ?t)"
    using kept by (rule feature_enabled_hit)
  have elsewhere: "request_cache s' arg = request_cache ?t arg
      \<longrightarrow> feature_enabled s' arg = (?v, s')"
    using kept by (simp add: feature_enabled_hit)
  have fresh: "fst (feature_enabled (calls (new_request (s\<lparr>request_cache := c\<rparr>)) prior) arg)
      = fst (feature_enabled_wrapped s arg)"
    by (simp add: in_request feature_enabled_wrapped_cache)
  from written again elsewhere fresh show ?thesis by blast
qed

theorem feature_enabled_memoized_witness:
  "request_cache
      ((store Map.empty [g_off_late] [])
         \<lparr>request_cache := [Some ''course-v1:edX+DemoX+T1'' \<mapsto> True]\<rparr>)
      (Some ''course-v1:edX+DemoX+T1'')
     = request_cache
         (calls (snd (feature_enabled (store Map.empty [g_on] [c1_new, c2_off])
                        (Some ''course-v1:edX+DemoX+T1'')))
            [Some ''course-v1:edX+DemoX+T2''])
         (Some ''course-v1:edX+DemoX+T1'')
   \<and> fst (feature_enabled (store Map.empty [g_on] [c1_new, c2_off])
             (Some ''course-v1:edX+DemoX+T1'')) = True
   \<and> fst (feature_enabled
        (snd (feature_enabled (store Map.empty [g_on] [c1_new, c2_off])
                (Some ''course-v1:edX+DemoX+T1'')))
        (Some ''course-v1:edX+DemoX+T2'')) = False
   \<and> feature_enabled
        ((store Map.empty [g_off_late] [])
           \<lparr>request_cache := [Some ''course-v1:edX+DemoX+T1'' \<mapsto> True]\<rparr>)
        (Some ''course-v1:edX+DemoX+T1'')
      = (True,
         (store Map.empty [g_off_late] [])
           \<lparr>request_cache := [Some ''course-v1:edX+DemoX+T1'' \<mapsto> True]\<rparr>)
   \<and> fst (feature_enabled
        (calls (new_request
           ((store Map.empty [g_off_late] [])
              \<lparr>request_cache := [Some ''course-v1:edX+DemoX+T1'' \<mapsto> True]\<rparr>)) [])
        (Some ''course-v1:edX+DemoX+T1'')) = False"
proof -
  let ?k = "Some ''course-v1:edX+DemoX+T1''"
  let ?k2 = "Some ''course-v1:edX+DemoX+T2''"
  let ?s = "store Map.empty [g_on] [c1_new, c2_off]"
  let ?u = "store Map.empty [g_off_late] []"
  let ?c = "[?k \<mapsto> True]"
  have v: "fst (feature_enabled ?s ?k) = True"
    by (simp add: sample_defs resolver_defs)
  have v2: "fst (feature_enabled (snd (feature_enabled ?s ?k)) ?k2) = False"
    by (simp add: sample_defs resolver_defs)
  have w: "fst (feature_enabled_wrapped ?u ?k) = False"
    by (simp add: sample_defs resolver_defs)
  note memo = feature_enabled_memoized
    [where s = ?s and arg = ?k and later = "[?k2]" and s' = "?u\<lparr>request_cache := ?c\<rparr>"]
  have h: "request_cache (?u\<lparr>request_cache := ?c\<rparr>) ?k
      = request_cache (calls (snd (feature_enabled ?s ?k)) [?k2]) ?k"
    by (simp add: sample_defs resolver_defs)
  have "feature_enabled (?u\<lparr>request_cache := ?c\<rparr>) ?k
      = (fst (feature_enabled ?s ?k), ?u\<lparr>request_cache := ?c\<rparr>)"
    using memo h by blast
  then have again:
    "feature_enabled (?u\<lparr>request_cache := ?c\<rparr>) ?k = (True, ?u\<lparr>request_cache := ?c\<rparr>)"
    by (simp only: v)
  have "fst (feature_enabled (calls (new_request (?u\<lparr>request_cache := ?c\<rparr>)) []) ?k)
      = fst (feature_enabled_wrapped ?u ?k)"
    using feature_enabled_memoized [where s = ?u and arg = ?k and c = ?c and prior = "[]"]
    by blast
  then have fresh:
    "fst (feature_enabled (calls (new_request (?u\<lparr>request_cache := ?c\<rparr>)) []) ?k) = False"
    by (simp only: w)
  from h v v2 again fresh show ?thesis by blast
qed

text \<open>
  Claim C9. The condition of line 59 tests the truth value of \<^verbatim>\<open>course_id\<close>, not
  whether one was passed. A supplied key that is false (the empty key) is answered
  exactly as a call without course id is, on every store; in particular the call
  returns \<open>True\<close> whenever the global toggle's current row has \<open>enabled = True\<close>,
  whatever \<open>enabled_for_all_courses\<close> and the per-course rows say.
\<close>

theorem feature_enabled_falsy_course_id:
  assumes "\<not> truthy (Some k)"
  shows "fst (feature_enabled (calls (new_request s) prior) (Some k))
           = fst (feature_enabled (calls (new_request s) prior) None)
         \<and> (is_enabled (PersistentGradesEnabledFlag_objects s) \<longrightarrow>
              fst (feature_enabled (calls (new_request s) prior) (Some k)) = True)"
  using assms by (simp add: in_request feature_enabled_wrapped_value truthy_def)

theorem feature_enabled_falsy_course_id_witness:
  "\<not> truthy (Some '''')
   \<and> is_enabled (PersistentGradesEnabledFlag_objects (store Map.empty [g_on] [c_empty, c2_off]))
   \<and> fst (feature_enabled
        (calls (new_request (store Map.empty [g_on] [c_empty, c2_off])) [None]) (Some ''''))
      = fst (feature_enabled
        (calls (new_request (store Map.empty [g_on] [c_empty, c2_off])) [None]) None)
   \<and> fst (feature_enabled
        (calls (new_request (store Map.empty [g_on] [c_empty, c2_off])) [None]) (Some ''''))
      = True"
proof -
  let ?s = "store Map.empty [g_on] [c_empty, c2_off]"
  have h1: "\<not> truthy (Some '''')"
    by (simp add: truthy_def)
  have h2: "is_enabled (PersistentGradesEnabledFlag_objects ?s)"
    by (simp add: sample_defs resolver_defs)
  note same = feature_enabled_falsy_course_id [OF h1, of ?s "[None]"]
  show ?thesis
    using same h1 h2 by blast
qed

subsection \<open>Claims about the batch setting\<close>

text \<open>
  Claim C10. A \<^verbatim>\<open>ComputeGradesSetting\<close> row created without an explicit
  \<^verbatim>\<open>batch_size\<close> has \<open>batch_size = 100\<close>.
\<close>

theorem batch_size_default:
  "batch_size (ComputeGradesSetting_init date en None cids) = 100"
  by (simp add: ComputeGradesSetting_init_def)

end
